theory Spec2Isabelle
  imports Complex_Main "HOL-Library.AList" "HOL-Library.Word"
begin

unbundle bit_operations_syntax

section \<open>Numbers, exceptions and the library functions the code calls\<close>

text \<open>
  A TypeScript \<open>number\<close> is modelled as an exact rational: the ledger's \<open>+\<close>, \<open>-\<close>,
  \<open><\<close> and \<open>!==\<close> on finite values, without rounding.  The default fee \<open>0.001\<close> of
  the wallet is the rational \<open>1/1000\<close>.
\<close>

type_synonym number = rat

text \<open>
  A thrown exception is a value: \<open>TypeError\<close> for a property read on \<open>undefined\<close>,
  \<open>Error msg\<close> for \<open>throw new Error(msg)\<close>.
\<close>

datatype exn = TypeError | Error string

datatype TransactionType =
  REGULAR | REWARD | STAKE | UNSTAKE | CONTRACT_DEPLOY | CONTRACT_CALL

text \<open>
  The interfaces of \<open>blockchain-types\<close>.  A field whose name is an Isabelle keyword
  (\<open>from\<close>, \<open>type\<close>) or is shared by two interfaces carries a prefix.  An optional field
  (\<open>data?\<close>) and a string the code compares with \<open>undefined\<close> (\<open>signature\<close>) are options;
  \<open>None\<close> is \<open>undefined\<close>.
\<close>

record BlockHeader =
  index :: number
  previousHash :: string
  timestamp :: number
  merkleRoot :: string
  validator :: string
  nonce :: number

record Transaction =
  tx_id :: string
  tx_type :: TransactionType
  tx_from :: string
  tx_to :: string
  amount :: number
  fee :: number
  tx_timestamp :: number
  tx_signature :: "string option"
  tx_data :: "string option"
  tx_nonce :: number

record Block =
  header :: BlockHeader
  transactions :: "Transaction list"
  signature :: "string option"

record Validator =
  v_address :: string
  v_stake :: number
  isActive :: bool
  lastBlockValidated :: number
  totalBlocksValidated :: number
  rewardAddress :: string
  registeredAt :: number

record Account =
  address :: string
  balance :: number
  acc_nonce :: number
  stake :: number
  code :: "string option"
  storage :: "(string \<times> string) list option"

record ChainParams =
  cp_networkId :: string
  blockTime :: number
  blockReward :: number
  minStake :: number
  maxSupply :: number
  initialSupply :: number
  difficultyAdjustmentInterval :: number
  genesisTimestamp :: number

text \<open>
  What the code takes from Node's libraries is a parameter of the model:
  \<open>sha256hex s\<close> is \<open>createHash("sha256").update(s).digest("hex")\<close>, the two
  \<open>stringify\<close> functions are \<open>JSON.stringify\<close> on a header and on a transaction whose
  \<open>signature\<close> has been removed, and \<open>numberToString\<close> is the conversion of a number
  inside a template literal.  Every theorem below holds for every such environment.
\<close>

record Env =
  sha256hex :: "string \<Rightarrow> string"
  stringifyHeader :: "BlockHeader \<Rightarrow> string"
  stringifyTx :: "Transaction \<Rightarrow> string"
  numberToString :: "number \<Rightarrow> string"

section \<open>The Merkle tree (backend/utils/merkle.ts)\<close>

definition zeroHash :: string where
  "zeroHash = replicate 64 (CHR ''0'')"

text \<open>\<open>const { signature, ...txWithoutSignature } = transaction\<close>, then the hash of its JSON text.\<close>

definition calculateTransactionHash :: "Env \<Rightarrow> Transaction \<Rightarrow> string" where
  "calculateTransactionHash E tx =
     sha256hex E (stringifyTx E (tx\<lparr>tx_signature := None\<rparr>))"

definition hashPair :: "Env \<Rightarrow> string \<Rightarrow> string \<Rightarrow> string" where
  "hashPair E left right = sha256hex E (left @ right)"

text \<open>
  The loop \<open>for (let i = 0; i < leaves.length; i += 2)\<close> of \<open>buildMerkleTree\<close>: it
  consumes two leaves per round, and \<open>right\<close> is \<open>left\<close> when \<open>i + 1\<close> is out of range.
\<close>

fun processPairs :: "Env \<Rightarrow> string list \<Rightarrow> string list" where
  "processPairs E [] = []"
| "processPairs E [left] = [hashPair E left left]"
| "processPairs E (left # right # rest) = hashPair E left right # processPairs E rest"

lemma length_processPairs: "length (processPairs E leaves) = (length leaves + 1) div 2"
  by (induction E leaves rule: processPairs.induct) simp_all

lemma processPairs_shorter:
  "length leaves \<noteq> 0 \<Longrightarrow> length leaves \<noteq> 1 \<Longrightarrow> length (processPairs E leaves) < length leaves"
  unfolding length_processPairs by presburger

function buildMerkleTree :: "Env \<Rightarrow> string list \<Rightarrow> string" where
  "buildMerkleTree E leaves =
     (if length leaves = 0 then zeroHash
      else if length leaves = 1 then hd leaves
      else buildMerkleTree E (processPairs E leaves))"
  by pat_completeness auto
termination
  by (relation "measure (\<lambda>(E, leaves). length leaves)")
     (simp_all add: processPairs_shorter)

declare buildMerkleTree.simps [simp del]

definition calculateMerkleRoot :: "Env \<Rightarrow> Transaction list \<Rightarrow> string" where
  "calculateMerkleRoot E txs =
     (if length txs = 0 then zeroHash
      else buildMerkleTree E (map (calculateTransactionHash E) txs))"

section \<open>The ledger (class Blockchain)\<close>

text \<open>
  \<open>validators\<close> is a JavaScript \<open>Map\<close> whose iteration order the election reads: an
  association list in insertion order, written with \<open>AList.update\<close> (a present key
  keeps its place, a new key goes last, as \<open>Map.set\<close> does).  The order of \<open>accounts\<close>
  is never read: a partial function.  Each account and validator object is reachable
  only through its map entry, so mutating a field of the object is an update of the
  entry.
\<close>

record Blockchain =
  chain :: "Block list"
  pendingTransactions :: "Transaction list"
  validators :: "(string \<times> Validator) list"
  accounts :: "string \<rightharpoonup> Account"
  chainParams :: ChainParams

definition calculateBlockHash :: "Env \<Rightarrow> Block \<Rightarrow> string" where
  "calculateBlockHash E block = sha256hex E (stringifyHeader E (header block))"

text \<open>\<open>this.chain[this.chain.length - 1]\<close> is \<open>undefined\<close> on an empty chain.\<close>

definition getLatestBlock :: "Blockchain \<Rightarrow> Block option" where
  "getLatestBlock s = (if chain s = [] then None else Some (last (chain s)))"

text \<open>
  The constructor with \<open>initializeGenesisBlock\<close>: the genesis header is hashed with an
  all-zero Merkle root, and the hash is then stored as its \<open>merkleRoot\<close>.
\<close>

definition genesisBlock :: "Env \<Rightarrow> ChainParams \<Rightarrow> Block" where
  "genesisBlock E params =
     (let hdr = \<lparr>index = 0, previousHash = zeroHash, timestamp = genesisTimestamp params,
                 merkleRoot = zeroHash, validator = ''AURUM_GENESIS'', nonce = 0\<rparr>;
          blk = \<lparr>header = hdr, transactions = [], signature = Some ''GENESIS_SIGNATURE''\<rparr>
      in blk\<lparr>header := hdr\<lparr>merkleRoot := calculateBlockHash E blk\<rparr>\<rparr>)"

definition newBlockchain :: "Env \<Rightarrow> ChainParams \<Rightarrow> Blockchain" where
  "newBlockchain E params =
     \<lparr>chain = [genesisBlock E params], pendingTransactions = [], validators = [],
      accounts = Map.empty, chainParams = params\<rparr>"

definition getAddressBalance :: "Blockchain \<Rightarrow> string \<Rightarrow> number" where
  "getAddressBalance s addr = (case accounts s addr of None \<Rightarrow> 0 | Some a \<Rightarrow> balance a)"


text \<open>
  \<open>restoreState\<close>, by which a node installs the snapshot it saved: chain, validators,
  accounts and pool are taken from the snapshot as they are.
\<close>

record BlockchainState =
  st_blocks :: "Block list"
  st_latestBlock :: Block
  st_validators :: "(string \<times> Validator) list"
  st_accounts :: "string \<rightharpoonup> Account"
  st_pendingTransactions :: "Transaction list"

definition restoreState :: "Blockchain \<Rightarrow> BlockchainState \<Rightarrow> Blockchain" where
  "restoreState s state =
     s\<lparr>chain := st_blocks state, validators := st_validators state,
       accounts := st_accounts state, pendingTransactions := st_pendingTransactions state\<rparr>"

text \<open>The test both \<open>isValidTransaction\<close> and \<open>verifyTransactionSignature\<close> open with.\<close>

definition isNetworkReward :: "Transaction \<Rightarrow> bool" where
  "isNetworkReward tx = (tx_type tx = REWARD \<and> tx_from tx = ''NETWORK'')"

definition verifyTransactionSignature :: "Transaction \<Rightarrow> bool" where
  "verifyTransactionSignature tx =
     (if isNetworkReward tx then True
      else tx_signature tx \<noteq> None \<and> tx_signature tx \<noteq> Some '''')"

definition isValidTransaction :: "Blockchain \<Rightarrow> Transaction \<Rightarrow> bool" where
  "isValidTransaction s tx =
     (if isNetworkReward tx then True
      else if \<not> verifyTransactionSignature tx then False
      else case accounts s (tx_from tx) of
        None \<Rightarrow> False
      | Some sender \<Rightarrow>
          if tx_type tx = REGULAR \<and> balance sender < amount tx + fee tx then False
          else if tx_type tx = STAKE \<and> balance sender < amount tx + fee tx then False
          else if tx_type tx = STAKE \<and> amount tx < minStake (chainParams s) then False
          else if tx_type tx = UNSTAKE \<and> stake sender < amount tx then False
          else if tx_type tx = UNSTAKE \<and> balance sender < fee tx then False
          else if tx_nonce tx \<noteq> acc_nonce sender then False
          else True)"

definition addTransaction :: "Blockchain \<Rightarrow> Transaction \<Rightarrow> bool \<times> Blockchain" where
  "addTransaction s tx =
     (if \<not> isValidTransaction s tx then (False, s)
      else (True, s\<lparr>pendingTransactions := pendingTransactions s @ [tx]\<rparr>))"

definition getOrCreateAccount :: "Blockchain \<Rightarrow> string \<Rightarrow> Blockchain" where
  "getOrCreateAccount s addr =
     (case accounts s addr of
        Some a \<Rightarrow> s
      | None \<Rightarrow> s\<lparr>accounts := (accounts s)(addr \<mapsto>
          \<lparr>address = addr, balance = 0, acc_nonce = 0, stake = 0,
           code = None, storage = None\<rparr>)\<rparr>)"

text \<open>The object \<open>getOrCreateAccount\<close> returns: the entry at \<open>addr\<close>, or the fresh account.\<close>

definition newAccount :: "string \<Rightarrow> Account" where
  "newAccount addr =
     \<lparr>address = addr, balance = 0, acc_nonce = 0, stake = 0, code = None, storage = None\<rparr>"

definition accountAt :: "Blockchain \<Rightarrow> string \<Rightarrow> Account" where
  "accountAt s addr = (case accounts s addr of None \<Rightarrow> newAccount addr | Some a \<Rightarrow> a)"

text \<open>A write to a field of the account object held at \<open>addr\<close>.\<close>

definition modifyAccount :: "string \<Rightarrow> (Account \<Rightarrow> Account) \<Rightarrow> Blockchain \<Rightarrow> Blockchain" where
  "modifyAccount addr f s =
     (case accounts s addr of
        None \<Rightarrow> s
      | Some a \<Rightarrow> s\<lparr>accounts := (accounts s)(addr \<mapsto> f a)\<rparr>)"

text \<open>
  \<open>sender\<close> and \<open>recipient\<close> are the same object when \<open>from = to\<close>; the three writes go
  through the map in the order of the source, so the second sees the first.
\<close>

definition processRegularTransaction :: "Blockchain \<Rightarrow> Transaction \<Rightarrow> Blockchain" where
  "processRegularTransaction s tx =
     (let s1 = getOrCreateAccount s (tx_from tx);
          s2 = getOrCreateAccount s1 (tx_to tx);
          s3 = modifyAccount (tx_from tx) (\<lambda>a. a\<lparr>balance := balance a - (amount tx + fee tx)\<rparr>) s2;
          s4 = modifyAccount (tx_to tx) (\<lambda>a. a\<lparr>balance := balance a + amount tx\<rparr>) s3
      in modifyAccount (tx_from tx) (\<lambda>a. a\<lparr>acc_nonce := acc_nonce a + 1\<rparr>) s4)"

definition processRewardTransaction :: "Blockchain \<Rightarrow> Transaction \<Rightarrow> Blockchain" where
  "processRewardTransaction s tx =
     (let s1 = getOrCreateAccount s (tx_to tx)
      in modifyAccount (tx_to tx) (\<lambda>a. a\<lparr>balance := balance a + amount tx\<rparr>) s1)"

text \<open>
  \<open>registerValidator\<close>; \<open>now\<close> is the reading of \<open>Date.now()\<close>.  A new validator reads
  \<open>this.getLatestBlock().header.index\<close>, which throws on an empty chain.
\<close>

definition registerValidator ::
  "number \<Rightarrow> Blockchain \<Rightarrow> string \<Rightarrow> number \<Rightarrow> exn + (bool \<times> Blockchain)" where
  "registerValidator now s addr stk =
     (if stk < minStake (chainParams s) then Inr (False, s)
      else case map_of (validators s) addr of
        Some v \<Rightarrow>
          Inr (True, s\<lparr>validators := AList.update addr
                 (v\<lparr>v_stake := v_stake v + stk, isActive := True\<rparr>) (validators s)\<rparr>)
      | None \<Rightarrow>
          (case getLatestBlock s of
             None \<Rightarrow> Inl TypeError
           | Some latest \<Rightarrow>
               Inr (True, s\<lparr>validators := AList.update addr
                      \<lparr>v_address = addr, v_stake = stk, isActive = True,
                       lastBlockValidated = index (header latest),
                       totalBlocksValidated = 0, rewardAddress = addr,
                       registeredAt = now\<rparr> (validators s)\<rparr>)))"

definition processStakeTransaction :: "number \<Rightarrow> Blockchain \<Rightarrow> Transaction \<Rightarrow> exn + Blockchain" where
  "processStakeTransaction now s tx =
     (let s1 = getOrCreateAccount s (tx_from tx);
          s2 = modifyAccount (tx_from tx)
                 (\<lambda>a. a\<lparr>balance := balance a - (amount tx + fee tx),
                         stake := stake a + amount tx,
                         acc_nonce := acc_nonce a + 1\<rparr>) s1
      in case registerValidator now s2 (tx_from tx) (amount tx) of
           Inl e \<Rightarrow> Inl e
         | Inr (ok, s3) \<Rightarrow> Inr s3)"

definition processUnstakeTransaction :: "Blockchain \<Rightarrow> Transaction \<Rightarrow> Blockchain" where
  "processUnstakeTransaction s tx =
     (let s1 = getOrCreateAccount s (tx_from tx);
          s2 = modifyAccount (tx_from tx)
                 (\<lambda>a. a\<lparr>balance := balance a - fee tx + amount tx,
                         stake := stake a - amount tx,
                         acc_nonce := acc_nonce a + 1\<rparr>) s1
      in case map_of (validators s2) (tx_from tx) of
           None \<Rightarrow> s2
         | Some v \<Rightarrow>
             (let v1 = v\<lparr>v_stake := v_stake v - amount tx\<rparr>;
                  v2 = (if v_stake v1 < minStake (chainParams s2)
                        then v1\<lparr>isActive := False\<rparr> else v1)
              in s2\<lparr>validators := AList.update (tx_from tx) v2 (validators s2)\<rparr>))"

definition processTransaction :: "number \<Rightarrow> Blockchain \<Rightarrow> Transaction \<Rightarrow> exn + Blockchain" where
  "processTransaction now s tx =
     (case tx_type tx of
        REGULAR \<Rightarrow> Inr (processRegularTransaction s tx)
      | REWARD \<Rightarrow> Inr (processRewardTransaction s tx)
      | STAKE \<Rightarrow> processStakeTransaction now s tx
      | UNSTAKE \<Rightarrow> Inr (processUnstakeTransaction s tx)
      | CONTRACT_DEPLOY \<Rightarrow> Inr s
      | CONTRACT_CALL \<Rightarrow> Inr s)"

text \<open>The loop \<open>for (const transaction of block.transactions)\<close>; an exception leaves it.\<close>

fun processAll :: "number \<Rightarrow> Blockchain \<Rightarrow> Transaction list \<Rightarrow> exn + Blockchain" where
  "processAll now s [] = Inr s"
| "processAll now s (tx # txs) =
     (case processTransaction now s tx of
        Inl e \<Rightarrow> Inl e
      | Inr s1 \<Rightarrow> processAll now s1 txs)"

definition processBlockTransactions :: "number \<Rightarrow> Blockchain \<Rightarrow> Block \<Rightarrow> exn + Blockchain" where
  "processBlockTransactions now s block =
     (let txIds = set (map tx_id (transactions block));
          s1 = s\<lparr>pendingTransactions := filter (\<lambda>tx. tx_id tx \<notin> txIds) (pendingTransactions s)\<rparr>
      in processAll now s1 (transactions block))"

definition verifyBlockSignature :: "Blockchain \<Rightarrow> Block \<Rightarrow> bool" where
  "verifyBlockSignature s block =
     (if index (header block) = 0 then True
      else case map_of (validators s) (validator (header block)) of
        None \<Rightarrow> False
      | Some v \<Rightarrow> signature block \<noteq> None \<and> signature block \<noteq> Some '''')"

text \<open>
  \<open>isValidBlock\<close>: the four header checks, then the loop that validates every
  transaction of the block against the state \<open>s\<close> the ledger is in when the block
  arrives.
\<close>

definition isValidBlock :: "Env \<Rightarrow> Blockchain \<Rightarrow> Block \<Rightarrow> exn + bool" where
  "isValidBlock E s block =
     (case getLatestBlock s of
        None \<Rightarrow> Inl TypeError
      | Some previousBlock \<Rightarrow>
          Inr (if index (header block) \<noteq> index (header previousBlock) + 1 then False
               else if previousHash (header block) \<noteq> calculateBlockHash E previousBlock then False
               else if merkleRoot (header block) \<noteq> calculateMerkleRoot E (transactions block) then False
               else if \<not> verifyBlockSignature s block then False
               else list_all (isValidTransaction s) (transactions block)))"

definition addBlock :: "Env \<Rightarrow> number \<Rightarrow> Blockchain \<Rightarrow> Block \<Rightarrow> exn + (bool \<times> Blockchain)" where
  "addBlock E now s block =
     (case isValidBlock E s block of
        Inl e \<Rightarrow> Inl e
      | Inr False \<Rightarrow> Inr (False, s)
      | Inr True \<Rightarrow>
          (case processBlockTransactions now (s\<lparr>chain := chain s @ [block]\<rparr>) block of
             Inl e \<Rightarrow> Inl e
           | Inr s1 \<Rightarrow>
               (case map_of (validators s1) (validator (header block)) of
                  None \<Rightarrow> Inr (True, s1)
                | Some v \<Rightarrow>
                    Inr (True, s1\<lparr>validators := AList.update (validator (header block))
                           (v\<lparr>lastBlockValidated := index (header block),
                              totalBlocksValidated := totalBlocksValidated v + 1\<rparr>)
                           (validators s1)\<rparr>))))"

text \<open>
  \<open>addValidatorReward\<close>: the reward transaction the ledger synthesizes and pushes onto
  the pool after \<open>createBlock\<close> has appended a block.
\<close>

definition rewardTransaction :: "Env \<Rightarrow> number \<Rightarrow> Blockchain \<Rightarrow> string \<Rightarrow> Transaction" where
  "rewardTransaction E now s validatorAddress =
     \<lparr>tx_id = ''reward-'' @ numberToString E now @ ''-'' @ validatorAddress,
      tx_type = REWARD, tx_from = ''NETWORK'', tx_to = validatorAddress,
      amount = blockReward (chainParams s), fee = 0, tx_timestamp = now,
      tx_signature = Some ''NETWORK_REWARD'', tx_data = None, tx_nonce = 0\<rparr>"

definition addValidatorReward :: "Env \<Rightarrow> number \<Rightarrow> Blockchain \<Rightarrow> string \<Rightarrow> Blockchain" where
  "addValidatorReward E now s validatorAddress =
     s\<lparr>pendingTransactions :=
         pendingTransactions s @ [rewardTransaction E now s validatorAddress]\<rparr>"

text \<open>
  \<open>selectValidator\<close>.  \<open>random\<close> is the value \<open>Math.random()\<close> returns to this call, a
  number in \<open>[0, 1)\<close>; the code reads nothing else from outside the validator map.
  \<open>firstCrossing\<close> is the loop over the active validators with its running
  \<open>cumulativeStake\<close>; \<open>None\<close> is the loop ending without a \<open>return\<close>.
\<close>

fun firstCrossing :: "number \<Rightarrow> number \<Rightarrow> Validator list \<Rightarrow> string option" where
  "firstCrossing cumulativeStake randomPoint [] = None"
| "firstCrossing cumulativeStake randomPoint (v # vs) =
     (if cumulativeStake + v_stake v \<ge> randomPoint then Some (v_address v)
      else firstCrossing (cumulativeStake + v_stake v) randomPoint vs)"

definition selectValidator :: "number \<Rightarrow> Blockchain \<Rightarrow> exn + string" where
  "selectValidator random s =
     (let activeValidators = filter isActive (map snd (validators s)) in
      if length activeValidators = 0 then Inl (Error ''No active validators available'')
      else
        (let totalStake = foldl (\<lambda>sum v. sum + v_stake v) 0 activeValidators;
             randomPoint = random * totalStake
         in case firstCrossing 0 randomPoint activeValidators of
              Some a \<Rightarrow> Inr a
            | None \<Rightarrow> Inr (v_address (hd activeValidators))))"

section \<open>The keystore (backend/crypto/keys.ts)\<close>

type_synonym byte = "8 word"

text \<open>
  Node's \<open>Buffer\<close> in hexadecimal.  \<open>buf.toString("hex")\<close> writes two lower-case
  digits per byte.  \<open>Buffer.from(s, "hex")\<close> reads two digits per byte, in either
  case, and stops at the first pair that is not two hexadecimal digits or at a single
  last character.
\<close>

definition hexDigit :: "nat \<Rightarrow> char" where
  "hexDigit n = char_of (if n < 10 then 48 + n else 87 + n)"

definition toHex :: "byte list \<Rightarrow> string" where
  "toHex bs = concat (map (\<lambda>b. [hexDigit (unat b div 16), hexDigit (unat b mod 16)]) bs)"

definition unhex :: "char \<Rightarrow> nat option" where
  "unhex c =
     (let n = (of_char c :: nat) in
      if 48 \<le> n \<and> n \<le> 57 then Some (n - 48)
      else if 97 \<le> n \<and> n \<le> 102 then Some (n - 87)
      else if 65 \<le> n \<and> n \<le> 70 then Some (n - 55)
      else None)"

fun fromHex :: "string \<Rightarrow> byte list" where
  "fromHex (a # b # rest) =
     (case unhex a of
        None \<Rightarrow> []
      | Some x \<Rightarrow> (case unhex b of
          None \<Rightarrow> []
        | Some y \<Rightarrow> of_nat (16 * x + y) # fromHex rest))"
| "fromHex [a] = []"
| "fromHex [] = []"

text \<open>The strings \<open>toString("hex")\<close> produces: lower-case digits, an even number of them.\<close>

definition isLowerHexDigit :: "char \<Rightarrow> bool" where
  "isLowerHexDigit c =
     (let n = (of_char c :: nat) in (48 \<le> n \<and> n \<le> 57) \<or> (97 \<le> n \<and> n \<le> 102))"

definition isLowerHex :: "string \<Rightarrow> bool" where
  "isLowerHex s = (even (length s) \<and> list_all isLowerHexDigit s)"

record KdfParams =
  dklen :: nat
  salt :: string
  kdf_n :: nat
  kdf_r :: nat
  kdf_p :: nat

record CipherParams =
  iv :: string

record KeystoreOptions =
  kdf :: string
  kdfparams :: KdfParams
  cipher :: string
  cipherparams :: CipherParams

text \<open>
  The primitives of Node's \<open>crypto\<close> module and of \<open>secp256k1\<close> are parameters.
  \<open>scrypt password salt keylen (N, r, p)\<close> is the derived key, \<open>None\<close> when the call
  throws.  \<open>keystream key iv i\<close> is byte \<open>i\<close> of the key stream AES-256 in counter mode
  produces from \<open>key\<close> and \<open>iv\<close>.  \<open>ecdsaSign hash key\<close> is the signature and recovery
  id, \<open>None\<close> when the library throws.
\<close>

record Crypto =
  scrypt :: "string \<Rightarrow> byte list \<Rightarrow> nat \<Rightarrow> nat \<times> nat \<times> nat \<Rightarrow> byte list option"
  keystream :: "byte list \<Rightarrow> byte list \<Rightarrow> nat \<Rightarrow> byte"
  ecdsaSign :: "byte list \<Rightarrow> byte list \<Rightarrow> (byte list \<times> byte) option"

text \<open>
  \<open>createCipheriv("aes-256-ctr", key, iv)\<close> and \<open>createDecipheriv\<close> throw unless the
  key has 32 bytes and the IV 16.  Counter mode is a stream cipher: \<open>update\<close> followed
  by \<open>final\<close> returns the input XOR the key stream, byte by byte, in both directions.
\<close>

definition aes256ctr :: "Crypto \<Rightarrow> byte list \<Rightarrow> byte list \<Rightarrow> byte list \<Rightarrow> byte list option" where
  "aes256ctr C key ivb input =
     (if length key \<noteq> 32 \<or> length ivb \<noteq> 16 then None
      else Some (map (\<lambda>(i, b). b XOR keystream C key ivb i) (enumerate 0 input)))"

text \<open>
  \<open>encryptPrivateKey\<close>; \<open>saltb\<close> and \<open>ivb\<close> are what \<open>randomBytes(32)\<close> and
  \<open>randomBytes(16)\<close> return.  Every exception inside the \<open>try\<close> block is caught and
  replaced by the one \<open>Error\<close> of the \<open>catch\<close> block.
\<close>

definition encryptPrivateKey ::
  "Crypto \<Rightarrow> byte list \<Rightarrow> byte list \<Rightarrow> string \<Rightarrow> string \<Rightarrow> exn + (string \<times> KeystoreOptions)" where
  "encryptPrivateKey C saltb ivb privateKey password =
     (case scrypt C password saltb 32 (16384, 8, 1) of
        None \<Rightarrow> Inl (Error ''Failed to encrypt private key'')
      | Some key \<Rightarrow>
          (case aes256ctr C key ivb (fromHex privateKey) of
             None \<Rightarrow> Inl (Error ''Failed to encrypt private key'')
           | Some encrypted \<Rightarrow>
               Inr (toHex encrypted,
                    \<lparr>kdf = ''scrypt'',
                     kdfparams = \<lparr>dklen = 32, salt = toHex saltb,
                                  kdf_n = 16384, kdf_r = 8, kdf_p = 1\<rparr>,
                     cipher = ''aes-256-ctr'',
                     cipherparams = \<lparr>iv = toHex ivb\<rparr>\<rparr>)))"

definition decryptPrivateKey ::
  "Crypto \<Rightarrow> string \<Rightarrow> string \<Rightarrow> KeystoreOptions \<Rightarrow> exn + string" where
  "decryptPrivateKey C encryptedPrivateKey password options =
     (let saltb = fromHex (salt (kdfparams options));
          ivb = fromHex (iv (cipherparams options))
      in case scrypt C password saltb 32
                (kdf_n (kdfparams options), kdf_r (kdfparams options), kdf_p (kdfparams options)) of
           None \<Rightarrow> Inl (Error ''Failed to decrypt private key'')
         | Some key \<Rightarrow>
             (case aes256ctr C key ivb (fromHex encryptedPrivateKey) of
                None \<Rightarrow> Inl (Error ''Failed to decrypt private key'')
              | Some decrypted \<Rightarrow> Inr (toHex decrypted)))"

section \<open>Signing and the wallet service\<close>


record Wallet =
  w_address :: string
  publicKey :: string
  privateKey :: string
  w_name :: "string option"
  createdAt :: number

text \<open>A wallet file: the \<open>EncryptedWallet\<close> fields and the keystore options saved with them.\<close>

record WalletFile =
  f_address :: string
  encryptedPrivateKey :: string
  f_publicKey :: string
  f_name :: string
  f_createdAt :: number
  f_options :: KeystoreOptions






section \<open>The peer-to-peer service (class P2PService)\<close>



datatype MessageType =
  HANDSHAKE | DISCONNECT | GET_PEERS | PEERS | GET_BLOCKS | BLOCKS
  | GET_TRANSACTIONS | TRANSACTIONS | NEW_BLOCK | NEW_TRANSACTION











section \<open>A ledger to evaluate on\<close>

text \<open>
  An environment, a ledger as a node restores it from a snapshot, and blocks offered to
  it.  The functions of \<open>exEnv\<close> stand in for the library's; no proof looks inside
  them.  The chain parameters are those the node service constructs its ledger with.
\<close>

definition exEnv :: Env where
  "exEnv = \<lparr>sha256hex = (\<lambda>s. s),
            stringifyHeader = (\<lambda>h. validator h @ previousHash h),
            stringifyTx = (\<lambda>tx. tx_id tx),
            numberToString = (\<lambda>n. ''0'')\<rparr>"

definition exParams :: ChainParams where
  "exParams = \<lparr>cp_networkId = ''aurum-mainnet'', blockTime = 15000, blockReward = 5,
               minStake = 1000, maxSupply = 100000000, initialSupply = 10000000,
               difficultyAdjustmentInterval = 2016, genesisTimestamp = 1609459200000\<rparr>"

definition exAccount :: "string \<Rightarrow> number \<Rightarrow> number \<Rightarrow> number \<Rightarrow> Account" where
  "exAccount addr bal n stk =
     \<lparr>address = addr, balance = bal, acc_nonce = n, stake = stk, code = None, storage = None\<rparr>"

definition exValidator :: "string \<Rightarrow> number \<Rightarrow> Validator" where
  "exValidator addr stk =
     \<lparr>v_address = addr, v_stake = stk, isActive = True, lastBlockValidated = 0,
      totalBlocksValidated = 0, rewardAddress = addr, registeredAt = 1609459200000\<rparr>"

text \<open>
  The snapshot holds the genesis block.  Alice holds 100 and has sent nothing yet; Val
  holds 500, has staked 1500 with one transaction and is the one registered validator.
\<close>

definition exLedger :: Blockchain where
  "exLedger = restoreState (newBlockchain exEnv exParams)
     \<lparr>st_blocks = [genesisBlock exEnv exParams],
      st_latestBlock = genesisBlock exEnv exParams,
      st_validators = [(''aur1val'', exValidator ''aur1val'' 1500)],
      st_accounts = [''aur1alice'' \<mapsto> exAccount ''aur1alice'' 100 0 0,
                     ''aur1val'' \<mapsto> exAccount ''aur1val'' 500 1 1500],
      st_pendingTransactions = []\<rparr>"

definition exTx ::
  "string \<Rightarrow> TransactionType \<Rightarrow> string \<Rightarrow> string \<Rightarrow> number \<Rightarrow> number \<Rightarrow> number \<Rightarrow> Transaction" where
  "exTx i type sender recipient amt f n =
     \<lparr>tx_id = i, tx_type = type, tx_from = sender, tx_to = recipient, amount = amt, fee = f,
      tx_timestamp = 1609459210000, tx_signature = Some ''3045'', tx_data = None,
      tx_nonce = n\<rparr>"

text \<open>The same ledger with a second validator, Bob, registered after Val with an equal stake.\<close>

definition exTwoValidators :: Blockchain where
  "exTwoValidators = exLedger
     \<lparr>validators := [(''aur1val'', exValidator ''aur1val'' 1500),
                     (''aur1bob'', exValidator ''aur1bob'' 1500)]\<rparr>"

text \<open>A block on top of the genesis block, produced and signed by Val, with the given transactions.\<close>

definition exBlock :: "Transaction list \<Rightarrow> Block" where
  "exBlock txs =
     \<lparr>header = \<lparr>index = 1,
                 previousHash = calculateBlockHash exEnv (genesisBlock exEnv exParams),
                 timestamp = 1609459215000,
                 merkleRoot = calculateMerkleRoot exEnv txs,
                 validator = ''aur1val'', nonce = 7\<rparr>,
      transactions = txs, signature = Some ''3046''\<rparr>"

section \<open>A keystore and a peer table to evaluate on\<close>

text \<open>
  Stand-ins for the primitives: a derived key that depends on the password, a key
  stream that depends on the key, a fixed signature.  The theorems hold for every
  \<open>Crypto\<close>; these serve the evaluated examples only.
\<close>

definition exCrypto :: Crypto where
  "exCrypto =
     \<lparr>scrypt = (\<lambda>password saltb keylen params.
                  Some (replicate keylen (of_nat (length password)))),
      keystream = (\<lambda>key ivb i. hd key + of_nat i),
      ecdsaSign = (\<lambda>hash key. Some (replicate 64 1, 0))\<rparr>"

text \<open>The options \<open>encryptPrivateKey\<close> writes for an all-zero salt and IV.\<close>

definition exOptions :: KeystoreOptions where
  "exOptions = \<lparr>kdf = ''scrypt'',
                kdfparams = \<lparr>dklen = 32, salt = toHex (replicate 32 0),
                             kdf_n = 16384, kdf_r = 8, kdf_p = 1\<rparr>,
                cipher = ''aes-256-ctr'',
                cipherparams = \<lparr>iv = toHex (replicate 16 0)\<rparr>\<rparr>"







section \<open>Facts about the ledger used throughout\<close>

lemma accepted_all_valid:
  "addBlock E now s block = Inr (True, s') \<Longrightarrow>
   list_all (isValidTransaction s) (transactions block)"
  by (auto simp: addBlock_def isValidBlock_def
           split: sum.splits option.splits bool.splits if_splits)

lemma ex_latest: "getLatestBlock exLedger = Some (genesisBlock exEnv exParams)"
  by (simp add: getLatestBlock_def exLedger_def restoreState_def)

lemma genesis_index: "index (header (genesisBlock E p)) = 0"
  by (simp add: genesisBlock_def Let_def)

text \<open>The header and the signature of \<open>exBlock txs\<close> pass; what remains is the transaction loop.\<close>

lemma ex_valid_block:
  "isValidBlock exEnv exLedger (exBlock txs) = Inr (list_all (isValidTransaction exLedger) txs)"
  by (simp add: isValidBlock_def ex_latest genesis_index verifyBlockSignature_def)
     (simp add: exBlock_def exLedger_def restoreState_def exValidator_def)

lemma ex_fields:
  "chain exLedger = [genesisBlock exEnv exParams]"
  "pendingTransactions exLedger = []"
  "validators exLedger = [(''aur1val'', exValidator ''aur1val'' 1500)]"
  "accounts exLedger = [''aur1alice'' \<mapsto> exAccount ''aur1alice'' 100 0 0,
                        ''aur1val'' \<mapsto> exAccount ''aur1val'' 500 1 1500]"
  "chainParams exLedger = exParams"
  by (simp_all add: exLedger_def restoreState_def newBlockchain_def)

lemma ex_params: "minStake exParams = 1000" "blockReward exParams = 5"
  by (simp_all add: exParams_def)

lemma ex_block_fields:
  "transactions (exBlock txs) = txs"
  "validator (header (exBlock txs)) = ''aur1val''"
  "index (header (exBlock txs)) = 1"
  by (simp_all add: exBlock_def)

lemmas ex_simps = ex_fields ex_params ex_block_fields exTx_def exAccount_def exValidator_def

lemmas valid_defs = isValidTransaction_def verifyTransactionSignature_def isNetworkReward_def

subsection \<open>What each processing step writes\<close>

lemma goc_accounts:
  "accounts (getOrCreateAccount s a) b = (if b = a then Some (accountAt s a) else accounts s b)"
  by (simp add: getOrCreateAccount_def accountAt_def newAccount_def split: option.splits)

lemma goc_rest:
  "chain (getOrCreateAccount s a) = chain s"
  "pendingTransactions (getOrCreateAccount s a) = pendingTransactions s"
  "validators (getOrCreateAccount s a) = validators s"
  "chainParams (getOrCreateAccount s a) = chainParams s"
  by (simp_all add: getOrCreateAccount_def split: option.splits)

lemma mod_accounts:
  "accounts (modifyAccount a f s) b =
     (if b = a then map_option f (accounts s a) else accounts s b)"
  by (simp add: modifyAccount_def split: option.splits)

lemma mod_rest:
  "chain (modifyAccount a f s) = chain s"
  "pendingTransactions (modifyAccount a f s) = pendingTransactions s"
  "validators (modifyAccount a f s) = validators s"
  "chainParams (modifyAccount a f s) = chainParams s"
  by (simp_all add: modifyAccount_def split: option.splits)

lemma regular_accounts:
  "accounts (processRegularTransaction s tx) b =
     (if tx_from tx = tx_to tx then
        (if b = tx_from tx
         then Some ((accountAt s b)
                \<lparr>balance := balance (accountAt s b) - (amount tx + fee tx) + amount tx,
                 acc_nonce := acc_nonce (accountAt s b) + 1\<rparr>)
         else accounts s b)
      else if b = tx_from tx
        then Some ((accountAt s b)
               \<lparr>balance := balance (accountAt s b) - (amount tx + fee tx),
                acc_nonce := acc_nonce (accountAt s b) + 1\<rparr>)
      else if b = tx_to tx
        then Some ((accountAt s b)\<lparr>balance := balance (accountAt s b) + amount tx\<rparr>)
      else accounts s b)"
  by (simp add: processRegularTransaction_def Let_def mod_accounts goc_accounts accountAt_def)

lemma regular_rest:
  "chain (processRegularTransaction s tx) = chain s"
  "pendingTransactions (processRegularTransaction s tx) = pendingTransactions s"
  "validators (processRegularTransaction s tx) = validators s"
  "chainParams (processRegularTransaction s tx) = chainParams s"
  by (simp_all add: processRegularTransaction_def Let_def mod_rest goc_rest)

text \<open>An accepted block: the ledger afterwards holds the accounts the processing loop left.\<close>

lemma addBlock_accepted:
  assumes "isValidBlock E s block = Inr True"
    and "processBlockTransactions now (s\<lparr>chain := chain s @ [block]\<rparr>) block = Inr s1"
  shows "case addBlock E now s block of
           Inr (ok, s') \<Rightarrow> ok \<and> accounts s' = accounts s1
         | Inl e \<Rightarrow> False"
  using assms by (simp add: addBlock_def split: option.splits)

text \<open>Blocks of one and of two transfers offered to \<open>exLedger\<close>: what the loop computes.\<close>

lemma ex_one_transfer:
  "tx_type t = REGULAR \<Longrightarrow>
   processBlockTransactions now (exLedger\<lparr>chain := chain exLedger @ [exBlock [t]]\<rparr>) (exBlock [t])
     = Inr (processRegularTransaction
         (exLedger\<lparr>chain := chain exLedger @ [exBlock [t]], pendingTransactions := []\<rparr>) t)"
  by (simp add: processBlockTransactions_def processTransaction_def ex_fields ex_block_fields)

lemma ex_two_transfers:
  "tx_type t = REGULAR \<Longrightarrow> tx_type u = REGULAR \<Longrightarrow>
   processBlockTransactions now (exLedger\<lparr>chain := chain exLedger @ [exBlock [t, u]]\<rparr>) (exBlock [t, u])
     = Inr (processRegularTransaction (processRegularTransaction
         (exLedger\<lparr>chain := chain exLedger @ [exBlock [t, u]], pendingTransactions := []\<rparr>) t) u)"
  by (simp add: processBlockTransactions_def processTransaction_def ex_fields ex_block_fields)










lemma ex_two_fields:
  "validators exTwoValidators = [(''aur1val'', exValidator ''aur1val'' 1500),
                                 (''aur1bob'', exValidator ''aur1bob'' 1500)]"
  "chain exTwoValidators = chain exLedger"
  by (simp_all add: exTwoValidators_def)

subsection \<open>The levels of the Merkle tree\<close>





section \<open>Facts about hexadecimal text and the stream cipher\<close>

lemma unhex_hexDigit: "n < 16 \<Longrightarrow> unhex (hexDigit n) = Some n"
  by (auto simp: unhex_def hexDigit_def Let_def)

lemma byte_of_digits: "(of_nat (16 * (unat b div 16) + unat b mod 16) :: byte) = b"
  by simp

lemma unat_byte_less: "unat (b :: byte) div 16 < 16"
proof -
  have "unat b < 256" using unsigned_less [of b] by simp
  then show ?thesis by simp
qed

lemma fromHex_toHex: "fromHex (toHex bs) = bs"
  by (induction bs) (simp_all add: toHex_def unhex_hexDigit unat_byte_less)

lemma lower_unhex:
  assumes "isLowerHexDigit c"
  shows "\<exists>x<16. unhex c = Some x \<and> hexDigit x = c"
proof -
  let ?n = "of_char c :: nat"
  have c: "char_of ?n = c" by simp
  from assms consider "48 \<le> ?n \<and> ?n \<le> 57" | "97 \<le> ?n \<and> ?n \<le> 102"
    by (auto simp: isLowerHexDigit_def Let_def)
  then show ?thesis
  proof cases
    case 1
    then have "unhex c = Some (?n - 48)" "?n - 48 < 16" "hexDigit (?n - 48) = char_of ?n"
      by (auto simp: unhex_def hexDigit_def Let_def)
    with c show ?thesis by auto
  next
    case 2
    then have "unhex c = Some (?n - 87)" "?n - 87 < 16" "hexDigit (?n - 87) = char_of ?n"
      by (auto simp: unhex_def hexDigit_def Let_def)
    with c show ?thesis by auto
  qed
qed

lemma unat_two_digits:
  "x < 16 \<Longrightarrow> y < 16 \<Longrightarrow> unat (of_nat (16 * x + y) :: byte) = 16 * x + y"
  by (simp only: unat_of_nat) simp

lemma toHex_fromHex: "isLowerHex s \<Longrightarrow> toHex (fromHex s) = s"
proof (induction s rule: fromHex.induct)
  case (1 a b rest)
  from 1(2) have la: "isLowerHexDigit a" and lb: "isLowerHexDigit b" and lr: "isLowerHex rest"
    by (simp_all add: isLowerHex_def)
  from lower_unhex [OF la] obtain x where x: "x < 16" "unhex a = Some x" "hexDigit x = a" by blast
  from lower_unhex [OF lb] obtain y where y: "y < 16" "unhex b = Some y" "hexDigit y = b" by blast
  from 1(1) [OF x(2) y(2) lr] have ih: "toHex (fromHex rest) = rest" .
  have "unat (of_nat (16 * x + y) :: byte) = 16 * x + y"
    using x(1) y(1) by (rule unat_two_digits)
  then have "toHex ((of_nat (16 * x + y) :: byte) # fromHex rest) = a # b # toHex (fromHex rest)"
    using x y by (simp only: toHex_def list.map concat.simps) simp
  with x y ih show ?case by simp
next
  case (2 a)
  then show ?case by (simp add: isLowerHex_def)
next
  case 3
  then show ?case by (simp add: toHex_def)
qed

lemma xor_stream_twice:
  "map (\<lambda>(i, b). b XOR f i) (enumerate n (map (\<lambda>(i, b). b XOR f i) (enumerate n xs))) = (xs :: byte list)"
  by (induction xs arbitrary: n) (simp_all add: xor.assoc)

lemma aes256ctr_twice:
  "aes256ctr C key ivb x = Some y \<Longrightarrow> aes256ctr C key ivb y = Some x"
  by (auto simp: aes256ctr_def xor_stream_twice split: if_splits)

lemma aes256ctr_length:
  "aes256ctr C key ivb x = Some y \<Longrightarrow> length y = length x"
  by (auto simp: aes256ctr_def split: if_splits)

lemma length_toHex: "length (toHex bs) = 2 * length bs"
  by (induction bs) (simp_all add: toHex_def)

lemma encrypt_parts:
  assumes "encryptPrivateKey C saltb ivb priv pw = Inr (ct, opts)"
  obtains key enc where
    "scrypt C pw saltb 32 (16384, 8, 1) = Some key"
    "aes256ctr C key ivb (fromHex priv) = Some enc"
    "ct = toHex enc"
    "salt (kdfparams opts) = toHex saltb"
    "iv (cipherparams opts) = toHex ivb"
    "kdf_n (kdfparams opts) = 16384" "kdf_r (kdfparams opts) = 8" "kdf_p (kdfparams opts) = 1"
  using assms by (auto simp: encryptPrivateKey_def split: option.splits)

lemma ex_scrypt: "scrypt exCrypto pw saltb 32 params = Some (replicate 32 (of_nat (length pw)))"
  by (simp add: exCrypto_def)

lemma ex_keystream: "keystream exCrypto (replicate 32 k) ivb i = k + of_nat i"
  by (simp add: exCrypto_def)

lemma ex_aes_one_byte:
  "aes256ctr exCrypto (replicate 32 k) (replicate 16 0) [b] = Some [b XOR k]"
  by (simp add: aes256ctr_def ex_keystream)

lemma hex_ab: "fromHex ''ab'' = [171]" "fromHex ''AB'' = [171]" "fromHex ''ad'' = [173]"
  by code_simp+

lemma hex_bytes: "toHex [171] = ''ab''" "toHex [173] = ''ad''" "toHex [168] = ''a8''"
  by code_simp+

lemma ex_xor: "(171 :: byte) XOR 6 = 173" "(173 :: byte) XOR 6 = 171" "(173 :: byte) XOR 5 = 168"
  by simp_all

lemma ex_encrypt:
  "fromHex priv = [171] \<Longrightarrow>
   encryptPrivateKey exCrypto (replicate 32 0) (replicate 16 0) priv ''secret''
     = Inr (''ad'', \<lparr>kdf = ''scrypt'',
                     kdfparams = \<lparr>dklen = 32, salt = toHex (replicate 32 0),
                                  kdf_n = 16384, kdf_r = 8, kdf_p = 1\<rparr>,
                     cipher = ''aes-256-ctr'',
                     cipherparams = \<lparr>iv = toHex (replicate 16 0)\<rparr>\<rparr>)"
  by (simp add: encryptPrivateKey_def ex_scrypt ex_aes_one_byte ex_xor hex_bytes)

lemma ex_decrypt:
  "decryptPrivateKey exCrypto ''ad'' pw
     \<lparr>kdf = ''scrypt'',
      kdfparams = \<lparr>dklen = 32, salt = toHex (replicate 32 0),
                   kdf_n = 16384, kdf_r = 8, kdf_p = 1\<rparr>,
      cipher = ''aes-256-ctr'',
      cipherparams = \<lparr>iv = toHex (replicate 16 0)\<rparr>\<rparr>
   = Inr (toHex [173 XOR of_nat (length pw)])"
  by (simp add: decryptPrivateKey_def fromHex_toHex ex_scrypt ex_aes_one_byte hex_ab
           del: fromHex.simps)

section \<open>Facts about the wallet service and the peer table\<close>








section \<open>Rejection leaves the ledger as it was\<close>

text \<open>
  C10.  When \<open>addBlock\<close> returns \<open>false\<close> the ledger afterwards is the ledger before:
  chain, accounts, validators and pool are all unchanged.  When \<open>addTransaction\<close>
  returns \<open>false\<close> the ledger, and so its pending pool, is unchanged.
\<close>

theorem rejection_is_atomic:
  "(addBlock E now s block = Inr (False, s') \<longrightarrow> s' = s) \<and>
   (addTransaction s tx = (False, s'') \<longrightarrow> s'' = s)"
  by (auto simp: addBlock_def addTransaction_def
           split: sum.splits option.splits bool.splits if_splits)

text \<open>Alice, who holds 100, offers 500: the block and the transaction are both rejected.\<close>

theorem rejection_is_atomic_witness:
  "addBlock exEnv 0 exLedger (exBlock [exTx ''t1'' REGULAR ''aur1alice'' ''aur1bob'' 500 1 0])
     = Inr (False, exLedger) \<and>
   addTransaction exLedger (exTx ''t1'' REGULAR ''aur1alice'' ''aur1bob'' 500 1 0)
     = (False, exLedger)"
  using rejection_is_atomic [of exEnv 0 exLedger
      "exBlock [exTx ''t1'' REGULAR ''aur1alice'' ''aur1bob'' 500 1 0]" exLedger
      "exTx ''t1'' REGULAR ''aur1alice'' ''aur1bob'' 500 1 0" exLedger]
  by (simp add: addBlock_def addTransaction_def ex_valid_block)
     (simp add: isValidTransaction_def verifyTransactionSignature_def isNetworkReward_def
                exTx_def ex_fields exAccount_def)

section \<open>Block validation\<close>

text \<open>
  C1, as the code has it.  Every transaction of a block that \<open>addBlock\<close> accepts is
  valid in the state the ledger was in when the block arrived, the state after the
  previous block: none of the block's own transactions has been applied when
  \<open>isValidBlock\<close> checks them.  So a block that holds a signed transaction whose
  sequence number is one more than its sender's sequence in that state is rejected,
  whatever precedes the transaction in the block.
\<close>

theorem accepted_block_valid_on_arrival:
  "(addBlock E now s block = Inr (True, s') \<longrightarrow>
      list_all (isValidTransaction s) (transactions block)) \<and>
   (t2 \<in> set (transactions block) \<and> \<not> isNetworkReward t2 \<and>
    accounts s (tx_from t2) = Some a \<and> tx_nonce t2 = acc_nonce a + 1 \<longrightarrow>
      addBlock E now s block \<noteq> Inr (True, s'))"
proof (intro conjI impI)
  assume "addBlock E now s block = Inr (True, s')"
  then show "list_all (isValidTransaction s) (transactions block)"
    by (rule accepted_all_valid)
next
  assume h: "t2 \<in> set (transactions block) \<and> \<not> isNetworkReward t2 \<and>
    accounts s (tx_from t2) = Some a \<and> tx_nonce t2 = acc_nonce a + 1"
  show "addBlock E now s block \<noteq> Inr (True, s')"
  proof
    assume "addBlock E now s block = Inr (True, s')"
    then have "list_all (isValidTransaction s) (transactions block)"
      by (rule accepted_all_valid)
    with h have "isValidTransaction s t2"
      by (simp add: list_all_iff)
    with h show False
      by (simp add: isValidTransaction_def split: if_splits)
  qed
qed

text \<open>
  A block with one affordable transfer of Alice's is accepted and the transfer is valid
  on arrival; the block with that transfer followed by her next, with sequence numbers
  0 and 1, is not accepted.
\<close>

theorem accepted_block_valid_on_arrival_witness:
  "(case addBlock exEnv 0 exLedger (exBlock [exTx ''t1'' REGULAR ''aur1alice'' ''aur1bob'' 10 1 0]) of
      Inr (ok, s') \<Rightarrow> ok | Inl e \<Rightarrow> False) \<and>
   list_all (isValidTransaction exLedger) [exTx ''t1'' REGULAR ''aur1alice'' ''aur1bob'' 10 1 0] \<and>
   (\<forall>s'. addBlock exEnv 0 exLedger (exBlock [exTx ''t1'' REGULAR ''aur1alice'' ''aur1bob'' 10 1 0,
                                      exTx ''t2'' REGULAR ''aur1alice'' ''aur1bob'' 10 1 1])
     \<noteq> Inr (True, s'))"
proof -
  let ?t1 = "exTx ''t1'' REGULAR ''aur1alice'' ''aur1bob'' 10 1 0"
  let ?t2 = "exTx ''t2'' REGULAR ''aur1alice'' ''aur1bob'' 10 1 1"
  have v: "isValidBlock exEnv exLedger (exBlock [?t1]) = Inr True"
    by (simp add: ex_valid_block valid_defs ex_simps)
  have p: "processBlockTransactions 0 (exLedger\<lparr>chain := chain exLedger @ [exBlock [?t1]]\<rparr>)
             (exBlock [?t1])
           = Inr (processRegularTransaction
               (exLedger\<lparr>chain := chain exLedger @ [exBlock [?t1]], pendingTransactions := []\<rparr>) ?t1)"
    by (rule ex_one_transfer) (simp add: exTx_def)
  have ok: "case addBlock exEnv 0 exLedger (exBlock [?t1]) of
              Inr (ok, s') \<Rightarrow> ok | Inl e \<Rightarrow> False"
    using addBlock_accepted [OF v p] by (auto split: sum.splits)
  then obtain s1 where acc: "addBlock exEnv 0 exLedger (exBlock [?t1]) = Inr (True, s1)"
    by (auto split: sum.splits)
  have one: "list_all (isValidTransaction exLedger) [?t1]"
    using accepted_block_valid_on_arrival [of exEnv 0 exLedger "exBlock [?t1]" s1] acc
    by (simp add: ex_block_fields)
  have two: "addBlock exEnv 0 exLedger (exBlock [?t1, ?t2]) \<noteq> Inr (True, s')" for s'
    using accepted_block_valid_on_arrival [of exEnv 0 exLedger "exBlock [?t1, ?t2]" s' ?t2
        "exAccount ''aur1alice'' 100 0 0"]
    by (simp add: ex_block_fields ex_fields isNetworkReward_def exTx_def exAccount_def)
  from ok one two show ?thesis by blast
qed

text \<open>
  Against C1 as stated.  The block of two transfers of Alice's with the consecutive
  sequence numbers 0 and 1 is rejected.  The block of two transfers of 60 with fee 1,
  both with sequence number 0, is accepted and leaves Alice, who held 100, at \<open>-22\<close>;
  its second transfer is not valid in the state its first one leaves.
\<close>

theorem sequential_validation_counterexample:
  "addBlock exEnv 0 exLedger (exBlock [exTx ''t1'' REGULAR ''aur1alice'' ''aur1bob'' 10 1 0,
                                      exTx ''t2'' REGULAR ''aur1alice'' ''aur1bob'' 10 1 1])
     = Inr (False, exLedger) \<and>
   (case addBlock exEnv 0 exLedger (exBlock [exTx ''t3'' REGULAR ''aur1alice'' ''aur1bob'' 60 1 0,
                                            exTx ''t4'' REGULAR ''aur1alice'' ''aur1bob'' 60 1 0]) of
      Inr (ok, s') \<Rightarrow> ok \<and> getAddressBalance s' ''aur1alice'' = - 22
    | Inl e \<Rightarrow> False) \<and>
   (case processTransaction 0 exLedger (exTx ''t3'' REGULAR ''aur1alice'' ''aur1bob'' 60 1 0) of
      Inr s1 \<Rightarrow> \<not> isValidTransaction s1 (exTx ''t4'' REGULAR ''aur1alice'' ''aur1bob'' 60 1 0)
    | Inl e \<Rightarrow> False)"
proof (intro conjI)
  show "addBlock exEnv 0 exLedger (exBlock [exTx ''t1'' REGULAR ''aur1alice'' ''aur1bob'' 10 1 0,
                                      exTx ''t2'' REGULAR ''aur1alice'' ''aur1bob'' 10 1 1])
     = Inr (False, exLedger)"
    by (simp add: addBlock_def ex_valid_block valid_defs ex_simps)
next
  let ?t3 = "exTx ''t3'' REGULAR ''aur1alice'' ''aur1bob'' 60 1 0"
  let ?t4 = "exTx ''t4'' REGULAR ''aur1alice'' ''aur1bob'' 60 1 0"
  have v: "isValidBlock exEnv exLedger (exBlock [?t3, ?t4]) = Inr True"
    by (simp add: ex_valid_block valid_defs ex_simps)
  have p: "processBlockTransactions 0 (exLedger\<lparr>chain := chain exLedger @ [exBlock [?t3, ?t4]]\<rparr>)
             (exBlock [?t3, ?t4])
           = Inr (processRegularTransaction (processRegularTransaction
               (exLedger\<lparr>chain := chain exLedger @ [exBlock [?t3, ?t4]], pendingTransactions := []\<rparr>) ?t3) ?t4)"
    by (rule ex_two_transfers) (simp_all add: exTx_def)
  show "case addBlock exEnv 0 exLedger (exBlock [?t3, ?t4]) of
      Inr (ok, s') \<Rightarrow> ok \<and> getAddressBalance s' ''aur1alice'' = - 22
    | Inl e \<Rightarrow> False"
    using addBlock_accepted [OF v p]
    by (auto split: sum.splits
             simp: getAddressBalance_def regular_accounts accountAt_def exTx_def ex_fields exAccount_def)
next
  show "case processTransaction 0 exLedger (exTx ''t3'' REGULAR ''aur1alice'' ''aur1bob'' 60 1 0) of
      Inr s1 \<Rightarrow> \<not> isValidTransaction s1 (exTx ''t4'' REGULAR ''aur1alice'' ''aur1bob'' 60 1 0)
    | Inl e \<Rightarrow> False"
    by (simp add: processTransaction_def valid_defs regular_accounts regular_rest accountAt_def
          exTx_def ex_fields exAccount_def)
qed

section \<open>Transfers\<close>




section \<open>Unstaking\<close>



section \<open>Network rewards and the signature check\<close>

text \<open>
  C6, as the code has it.  A transaction of type \<open>REWARD\<close> whose sender is the string
  \<open>NETWORK\<close>, in upper case, is accepted by \<open>isValidTransaction\<close> and by
  \<open>verifyTransactionSignature\<close> whatever its signature field holds.  Every other
  transaction that \<open>isValidTransaction\<close> accepts passes the signature check: its
  signature is present and not empty.  The reward that \<open>addValidatorReward\<close>
  synthesizes is accepted by both.
\<close>

theorem network_reward_exempt:
  "(tx_type tx = REWARD \<and> tx_from tx = ''NETWORK'' \<longrightarrow>
      isValidTransaction s (tx\<lparr>tx_signature := sig\<rparr>) \<and>
      verifyTransactionSignature (tx\<lparr>tx_signature := sig\<rparr>)) \<and>
   (\<not> (tx_type tx = REWARD \<and> tx_from tx = ''NETWORK'') \<and> isValidTransaction s tx \<longrightarrow>
      verifyTransactionSignature tx \<and> tx_signature tx \<noteq> None \<and> tx_signature tx \<noteq> Some '''') \<and>
   isValidTransaction s (rewardTransaction E now s0 validatorAddress) \<and>
   verifyTransactionSignature (rewardTransaction E now s0 validatorAddress)"
  by (auto simp: valid_defs rewardTransaction_def split: if_splits)

text \<open>
  A network reward is accepted without a signature and with the empty one; Alice's
  signed transfer is accepted, and rejected once its signature is emptied.
\<close>

theorem network_reward_exempt_witness:
  "isValidTransaction exLedger
     ((exTx ''r1'' REWARD ''NETWORK'' ''aur1val'' 5 0 0)\<lparr>tx_signature := None\<rparr>) \<and>
   verifyTransactionSignature
     ((exTx ''r1'' REWARD ''NETWORK'' ''aur1val'' 5 0 0)\<lparr>tx_signature := Some ''''\<rparr>) \<and>
   isValidTransaction exLedger (exTx ''t1'' REGULAR ''aur1alice'' ''aur1bob'' 10 1 0) \<and>
   tx_signature (exTx ''t1'' REGULAR ''aur1alice'' ''aur1bob'' 10 1 0) = Some ''3045'' \<and>
   \<not> isValidTransaction exLedger
     ((exTx ''t1'' REGULAR ''aur1alice'' ''aur1bob'' 10 1 0)\<lparr>tx_signature := Some ''''\<rparr>)"
proof -
  let ?r = "exTx ''r1'' REWARD ''NETWORK'' ''aur1val'' 5 0 0"
  let ?t = "exTx ''t1'' REGULAR ''aur1alice'' ''aur1bob'' 10 1 0"
  have r1: "isValidTransaction exLedger (?r\<lparr>tx_signature := None\<rparr>)"
    using network_reward_exempt [of ?r exLedger None exEnv 0 exLedger "''aur1val''"]
    by (simp add: exTx_def)
  have r2: "verifyTransactionSignature (?r\<lparr>tx_signature := Some ''''\<rparr>)"
    using network_reward_exempt [of ?r exLedger "Some ''''" exEnv 0 exLedger "''aur1val''"]
    by (simp add: exTx_def)
  have t1: "isValidTransaction exLedger ?t"
    by (simp add: valid_defs ex_simps)
  have t2: "tx_signature ?t = Some ''3045''"
    by (simp add: exTx_def)
  have t3: "\<not> isValidTransaction exLedger (?t\<lparr>tx_signature := Some ''''\<rparr>)"
    using network_reward_exempt [of "?t\<lparr>tx_signature := Some ''''\<rparr>" exLedger None exEnv 0
            exLedger "''aur1val''"]
    by (auto simp: exTx_def)
  from r1 r2 t1 t2 t3 show ?thesis by blast
qed

text \<open>
  Against C6 as stated.  A reward whose sender is \<open>network\<close> in lower case is not
  exempt: with an empty signature both functions reject it.
\<close>

theorem lower_case_network_counterexample:
  "\<not> verifyTransactionSignature
       ((exTx ''r2'' REWARD ''network'' ''aur1val'' 5 0 0)\<lparr>tx_signature := Some ''''\<rparr>) \<and>
   \<not> isValidTransaction exLedger
       ((exTx ''r2'' REWARD ''network'' ''aur1val'' 5 0 0)\<lparr>tx_signature := Some ''''\<rparr>)"
  by (simp add: valid_defs exTx_def)

section \<open>The Merkle root\<close>



section \<open>Proposer election\<close>

text \<open>
  C2, as the code has it.  \<open>selectValidator\<close> is a function of the validator map and
  of the value \<open>Math.random()\<close> returns to the call: two ledgers with the same
  validators, in the same order, elect the same address for the same draw, whatever
  their chains are.  When exactly one validator is active it is elected for every draw.
\<close>

theorem election_reads_validators_and_draw:
  "(validators s1 = validators s2 \<longrightarrow> selectValidator random s1 = selectValidator random s2) \<and>
   (filter isActive (map snd (validators s)) = [v] \<longrightarrow>
      selectValidator random s = Inr (v_address v))"
  by (simp add: selectValidator_def Let_def)

text \<open>
  Two ledgers with the same two validators and different latest blocks elect the same
  address for the draw 3/4; the ledger whose one validator is Val elects Val.
\<close>

theorem election_reads_validators_and_draw_witness:
  "validators exTwoValidators
     = validators (exTwoValidators\<lparr>chain := chain exTwoValidators @ [exBlock []]\<rparr>) \<and>
   getLatestBlock exTwoValidators
     \<noteq> getLatestBlock (exTwoValidators\<lparr>chain := chain exTwoValidators @ [exBlock []]\<rparr>) \<and>
   selectValidator (3 / 4) exTwoValidators
     = selectValidator (3 / 4) (exTwoValidators\<lparr>chain := chain exTwoValidators @ [exBlock []]\<rparr>) \<and>
   filter isActive (map snd (validators exLedger)) = [exValidator ''aur1val'' 1500] \<and>
   selectValidator (3 / 4) exLedger = Inr ''aur1val''"
proof -
  let ?s2 = "exTwoValidators\<lparr>chain := chain exTwoValidators @ [exBlock []]\<rparr>"
  have a: "validators exTwoValidators = validators ?s2" by simp
  have b: "getLatestBlock exTwoValidators \<noteq> getLatestBlock ?s2"
    by (simp add: getLatestBlock_def ex_two_fields ex_fields)
       (metis ex_block_fields(3) genesis_index zero_neq_one)
  have c: "filter isActive (map snd (validators exLedger)) = [exValidator ''aur1val'' 1500]"
    by (simp add: ex_fields exValidator_def)
  have d: "selectValidator (3 / 4) exTwoValidators = selectValidator (3 / 4) ?s2"
    using election_reads_validators_and_draw [of exTwoValidators ?s2 "3 / 4" exLedger
            "exValidator ''aur1val'' 1500"] a
    by blast
  have e: "selectValidator (3 / 4) exLedger = Inr ''aur1val''"
    using election_reads_validators_and_draw [of exTwoValidators ?s2 "3 / 4" exLedger
            "exValidator ''aur1val'' 1500"] c
    by (simp add: exValidator_def)
  from a b c d e show ?thesis by blast
qed

text \<open>
  Against C2 as stated.  On one ledger, so with one validator set and one prior block
  header, the draws 1/4 and 3/4 elect different addresses.
\<close>

theorem election_draw_counterexample:
  "selectValidator (1 / 4) exTwoValidators = Inr ''aur1val'' \<and>
   selectValidator (3 / 4) exTwoValidators = Inr ''aur1bob''"
  by (simp add: selectValidator_def Let_def ex_two_fields exValidator_def)

section \<open>The keystore round trip\<close>

text \<open>
  C7, as the code has it.  When \<open>encryptPrivateKey\<close> succeeds, \<open>decryptPrivateKey\<close>
  with the same password returns the lower-case hexadecimal text of the bytes that
  \<open>Buffer.from(priv, "hex")\<close> reads from the private key: the private key itself when
  it is an even number of lower-case hexadecimal digits.  With any other password for
  which key derivation returns its 32 bytes, \<open>decryptPrivateKey\<close> raises no error: it
  returns the ciphertext XOR the other key stream, a string as long as the ciphertext.
\<close>

theorem keystore_round_trip:
  assumes "encryptPrivateKey C saltb ivb priv pw = Inr (ct, opts)"
  shows "decryptPrivateKey C ct pw opts = Inr (toHex (fromHex priv)) \<and>
         (isLowerHex priv \<longrightarrow> decryptPrivateKey C ct pw opts = Inr priv) \<and>
         (scrypt C pw' saltb 32 (16384, 8, 1) = Some key' \<and> length key' = 32 \<longrightarrow>
            (\<exists>out. aes256ctr C key' ivb (fromHex ct) = Some out \<and>
                   decryptPrivateKey C ct pw' opts = Inr (toHex out) \<and>
                   length (toHex out) = length ct))"
proof -
  from assms obtain key enc where
    k: "scrypt C pw saltb 32 (16384, 8, 1) = Some key"
    and e: "aes256ctr C key ivb (fromHex priv) = Some enc"
    and ct: "ct = toHex enc"
    and o: "salt (kdfparams opts) = toHex saltb" "iv (cipherparams opts) = toHex ivb"
      "kdf_n (kdfparams opts) = 16384" "kdf_r (kdfparams opts) = 8" "kdf_p (kdfparams opts) = 1"
    by (rule encrypt_parts)
  from e have again: "aes256ctr C key ivb enc = Some (fromHex priv)"
    by (rule aes256ctr_twice)
  have same: "decryptPrivateKey C ct pw opts = Inr (toHex (fromHex priv))"
    using o k again by (simp add: decryptPrivateKey_def ct fromHex_toHex)
  have lower: "isLowerHex priv \<longrightarrow> decryptPrivateKey C ct pw opts = Inr priv"
    by (simp add: same toHex_fromHex)
  have other: "\<exists>out. aes256ctr C key' ivb (fromHex ct) = Some out \<and>
                   decryptPrivateKey C ct pw' opts = Inr (toHex out) \<and>
                   length (toHex out) = length ct"
    if k': "scrypt C pw' saltb 32 (16384, 8, 1) = Some key'" and l: "length key' = 32"
  proof -
    from e have iv16: "length ivb = 16"
      by (auto simp: aes256ctr_def split: if_splits)
    with l obtain out where out: "aes256ctr C key' ivb enc = Some out"
      by (auto simp: aes256ctr_def)
    then have "length out = length enc" by (rule aes256ctr_length)
    moreover have "decryptPrivateKey C ct pw' opts = Inr (toHex out)"
      using o k' out by (simp add: decryptPrivateKey_def ct fromHex_toHex)
    ultimately show ?thesis
      using out by (simp add: ct fromHex_toHex length_toHex)
  qed
  from same lower other show ?thesis by blast
qed

text \<open>
  The key \<open>ab\<close> under the password \<open>secret\<close> is stored as \<open>ad\<close>; the same password
  gives \<open>ab\<close> back, and the password \<open>guess\<close> gives \<open>a8\<close>.
\<close>

theorem keystore_round_trip_witness:
  "encryptPrivateKey exCrypto (replicate 32 0) (replicate 16 0) ''ab'' ''secret''
     = Inr (''ad'', exOptions) \<and>
   isLowerHex ''ab'' \<and>
   decryptPrivateKey exCrypto ''ad'' ''secret'' exOptions = Inr ''ab'' \<and>
   scrypt exCrypto ''guess'' (replicate 32 0) 32 (16384, 8, 1) = Some (replicate 32 5) \<and>
   decryptPrivateKey exCrypto ''ad'' ''guess'' exOptions = Inr ''a8''"
proof -
  have enc: "encryptPrivateKey exCrypto (replicate 32 0) (replicate 16 0) ''ab'' ''secret''
               = Inr (''ad'', exOptions)"
    unfolding exOptions_def by (rule ex_encrypt) (rule hex_ab)
  have low: "isLowerHex ''ab''"
    by code_simp
  have k': "scrypt exCrypto ''guess'' (replicate 32 0) 32 (16384, 8, 1) = Some (replicate 32 5)"
    by (simp add: ex_scrypt)
  note r = keystore_round_trip [OF enc, of "''guess''" "replicate 32 5"]
  from r low have good: "decryptPrivateKey exCrypto ''ad'' ''secret'' exOptions = Inr ''ab''"
    by blast
  from r k' obtain out where
    out: "aes256ctr exCrypto (replicate 32 5) (replicate 16 0) (fromHex ''ad'') = Some out"
    and d: "decryptPrivateKey exCrypto ''ad'' ''guess'' exOptions = Inr (toHex out)"
    by auto
  from out have "out = [168]"
    by (simp add: hex_ab ex_aes_one_byte ex_xor del: fromHex.simps)
  with d have bad: "decryptPrivateKey exCrypto ''ad'' ''guess'' exOptions = Inr ''a8''"
    by (simp add: hex_bytes)
  from enc low good k' bad show ?thesis by blast
qed

text \<open>
  Against C7 as stated.  The private key \<open>AB\<close> comes back as \<open>ab\<close>, which is another
  string; and decrypting with the wrong password \<open>guess\<close> returns the value \<open>a8\<close>
  where the claim has an error.
\<close>

theorem keystore_counterexample:
  "encryptPrivateKey exCrypto (replicate 32 0) (replicate 16 0) ''AB'' ''secret''
     = Inr (''ad'', exOptions) \<and>
   decryptPrivateKey exCrypto ''ad'' ''secret'' exOptions = Inr ''ab'' \<and>
   ''ab'' \<noteq> ''AB'' \<and>
   decryptPrivateKey exCrypto ''ad'' ''guess'' exOptions = Inr ''a8''"
proof -
  have enc: "encryptPrivateKey exCrypto (replicate 32 0) (replicate 16 0) ''AB'' ''secret''
               = Inr (''ad'', exOptions)"
    unfolding exOptions_def by (rule ex_encrypt) (rule hex_ab)
  have good: "decryptPrivateKey exCrypto ''ad'' ''secret'' exOptions = Inr ''ab''"
    unfolding exOptions_def using ex_decrypt [of "''secret''"] by (simp add: ex_xor hex_bytes)
  have bad: "decryptPrivateKey exCrypto ''ad'' ''guess'' exOptions = Inr ''a8''"
    unfolding exOptions_def using ex_decrypt [of "''guess''"] by (simp add: ex_xor hex_bytes)
  from enc good bad show ?thesis by simp
qed

section \<open>The sequence number of a created transaction\<close>



section \<open>The handshake\<close>




end
